theory Spec2Isabelle
  imports Main "HOL-Library.Word"
begin

unbundle bit_operations_syntax

section \<open>The host platform\<close>

text \<open>
  The driver talks to three services of the MakeCode runtime, none of which is part of the
  repository: the I2C bus (\<open>pins.i2cWriteNumber\<close>, \<open>pins.i2cReadNumber\<close>), the
  cooperative delay \<open>basic.pause\<close> and the version query \<open>control.deviceDalVersion\<close>.
  The host is a record holding what the version query does, the byte the chip answers
  to the k-th read transaction, the number of reads so far and the list of everything
  the driver has asked of the platform, oldest first.

  JavaScript's bitwise operators work on 32-bit integers, so every value that the driver
  produces with \<open>&\<close>, \<open>|\<close>, \<open>~\<close> or \<open><<\<close> is a \<open>32 word\<close>, read with \<open>sint\<close>.
  Integer arguments are \<open>int\<close>; non-integral numbers are outside the model.
\<close>

datatype exn = Thrown string

datatype event = I2CWrite int "32 word" | I2CRead int | Pause int

record Host =
  dalVersion :: "exn + string"
  answer :: "nat \<Rightarrow> int"
  reads :: nat
  trace :: "event list"

definition i2cWriteNumber :: "int \<Rightarrow> 32 word \<Rightarrow> Host \<Rightarrow> Host" where
  "i2cWriteNumber a b h = h\<lparr>trace := trace h @ [I2CWrite a b]\<rparr>"

definition i2cReadNumber :: "int \<Rightarrow> Host \<Rightarrow> int \<times> Host" where
  "i2cReadNumber a h =
     (answer h (reads h), h\<lparr>reads := Suc (reads h), trace := trace h @ [I2CRead a]\<rparr>)"

text \<open>
  \<open>basic.pause\<close> yields to the other fibers of the program: the suspension is recorded
  and then \<open>others\<close>, whatever the rest of the program does meanwhile, runs on the
  device and the host.
\<close>

definition pause :: "('d \<times> Host \<Rightarrow> 'd \<times> Host) \<Rightarrow> int \<Rightarrow> 'd \<times> Host \<Rightarrow> 'd \<times> Host" where
  "pause others ms s = (case s of (d, h) \<Rightarrow> others (d, h\<lparr>trace := trace h @ [Pause ms]\<rparr>))"

definition pauses :: "Host \<Rightarrow> event list" where
  "pauses h = filter (\<lambda>e. case e of Pause ms \<Rightarrow> True | _ \<Rightarrow> False) (trace h)"

text \<open>\<open>1 << pin\<close>: JavaScript takes the shift count modulo 32.\<close>

definition pin_mask :: "nat \<Rightarrow> 32 word" where
  "pin_mask pin = push_bit (pin mod 32) 1"

section \<open>The simulator-aware driver\<close>

subsection \<open>isSimulator\<close>

text \<open>
  \<open>let v = ""; try { v = control.deviceDalVersion() } catch { }; return v == "sim"\<close>.
  The result is a sum so that a propagated exception would be visible as \<open>Inl\<close>.
\<close>

definition isSimulator :: "Host \<Rightarrow> exn + bool" where
  "isSimulator h =
     (let v = '''';
          v = (case dalVersion h of Inr s \<Rightarrow> s | Inl e \<Rightarrow> v)
      in Inr (v = ''sim''))"

subsection \<open>class Device\<close>

record Device =
  addr :: int
  latch :: "32 word"
  initialized :: bool
  sim :: bool
  simPort :: "32 word"

type_synonym sys = "Device \<times> Host"

definition Device_new :: "int \<Rightarrow> Host \<Rightarrow> exn + sys" where
  "Device_new address h =
     (case isSimulator h of
        Inl e \<Rightarrow> Inl e
      | Inr b \<Rightarrow> Inr (\<lparr>addr = address, latch = 0xFF, initialized = False, sim = b,
                       simPort = 0xFF\<rparr>, h))"

definition create :: "int \<Rightarrow> Host \<Rightarrow> exn + sys" where
  "create address h = Device_new address h"

definition writeByte :: "32 word \<Rightarrow> sys \<Rightarrow> sys" where
  "writeByte b s = (case s of (d, h) \<Rightarrow> (d, i2cWriteNumber (addr d) (b AND 0xFF) h))"

definition begin_device :: "sys \<Rightarrow> sys" where
  "begin_device s =
     (case (case s of (d, h) \<Rightarrow>
              if sim d then (d\<lparr>simPort := latch d AND 0xFF\<rparr>, h)
              else writeByte (latch d) (d, h))
      of (d, h) \<Rightarrow> (d\<lparr>initialized := True\<rparr>, h))"

definition ensureInit :: "sys \<Rightarrow> sys" where
  "ensureInit s = (case s of (d, h) \<Rightarrow> if \<not> initialized d then begin_device (d, h) else (d, h))"

definition readPort :: "sys \<Rightarrow> 32 word \<times> sys" where
  "readPort s =
     (case ensureInit s of (d, h) \<Rightarrow>
        if sim d then
          (let forcedLowMask = NOT (latch d) AND 0xFF
           in ((simPort d AND latch d) OR (0 AND forcedLowMask), (d, h)))
        else (case i2cReadNumber (addr d) h of (v, h') \<Rightarrow> (word_of_int v AND 0xFF, (d, h'))))"

definition writePort :: "int \<Rightarrow> sys \<Rightarrow> sys" where
  "writePort val s =
     (case ensureInit s of (d, h) \<Rightarrow>
        let d = d\<lparr>latch := word_of_int val AND 0xFF\<rparr>
        in if sim d then (d, h) else writeByte (latch d) (d, h))"

definition readPin :: "nat \<Rightarrow> sys \<Rightarrow> bool \<times> sys" where
  "readPin pin s =
     (case ensureInit s of (d, h) \<Rightarrow>
        let mask = pin_mask pin;
            s1 = (if latch d AND mask = 0 then
                    (let d = d\<lparr>latch := latch d OR mask\<rparr>
                     in if \<not> sim d then writeByte (latch d) (d, h) else (d, h))
                  else (d, h))
        in (case readPort s1 of (v, s2) \<Rightarrow> (v AND mask \<noteq> 0, s2)))"

definition writePin :: "nat \<Rightarrow> bool \<Rightarrow> sys \<Rightarrow> sys" where
  "writePin pin high s =
     (case ensureInit s of (d, h) \<Rightarrow>
        let mask = pin_mask pin;
            d = (if high then d\<lparr>latch := latch d OR mask\<rparr>
                 else d\<lparr>latch := latch d AND NOT mask\<rparr>)
        in if sim d then (d, h) else writeByte (latch d) (d, h))"

text \<open>An omitted \<open>debounceMs\<close> is \<open>None\<close> and defaults to 20.\<close>

definition buttonPressed :: "(sys \<Rightarrow> sys) \<Rightarrow> nat \<Rightarrow> int option \<Rightarrow> sys \<Rightarrow> bool \<times> sys" where
  "buttonPressed others pin debounceMs_opt s =
     (let debounceMs = (case debounceMs_opt of None \<Rightarrow> 20 | Some ms \<Rightarrow> ms)
      in case readPin pin s of (r1, s1) \<Rightarrow>
           if r1 = False then
             (if debounceMs > 0 then
                (case readPin pin (pause others debounceMs s1) of (r2, s2) \<Rightarrow> (r2 = False, s2))
              else (True, s1))
           else (False, s1))"

text \<open>An omitted \<open>activeLow\<close> is \<open>None\<close> and defaults to true.\<close>

definition led :: "nat \<Rightarrow> bool \<Rightarrow> bool option \<Rightarrow> sys \<Rightarrow> sys" where
  "led pin on activeLow_opt s =
     (let activeLow = (case activeLow_opt of None \<Rightarrow> True | Some a \<Rightarrow> a);
          driveLow = (if activeLow then on else \<not> on)
      in writePin pin (\<not> driveLow) s)"

definition setInput :: "nat \<Rightarrow> sys \<Rightarrow> sys" where
  "setInput pin s = writePin pin True s"

definition setOutputLow :: "nat \<Rightarrow> sys \<Rightarrow> sys" where
  "setOutputLow pin s = writePin pin False s"

definition setSimPinHigh :: "nat \<Rightarrow> sys \<Rightarrow> sys" where
  "setSimPinHigh pin s =
     (case s of (d, h) \<Rightarrow>
        if \<not> sim d then (d, h) else (d\<lparr>simPort := simPort d OR pin_mask pin\<rparr>, h))"

definition setSimPinLow :: "nat \<Rightarrow> sys \<Rightarrow> sys" where
  "setSimPinLow pin s =
     (case s of (d, h) \<Rightarrow>
        if \<not> sim d then (d, h) else (d\<lparr>simPort := simPort d AND NOT (pin_mask pin)\<rparr>, h))"

section \<open>The hardware-only driver of main.ts\<close>

text \<open>
  The class of the same name in main.ts has no simulator fields; its operations carry
  the suffix \<open>_hw\<close> here.
\<close>

record Device_hw =
  addr_hw :: int
  latch_hw :: "32 word"
  initialized_hw :: bool

type_synonym sys_hw = "Device_hw \<times> Host"

definition Device_new_hw :: "int \<Rightarrow> Host \<Rightarrow> sys_hw" where
  "Device_new_hw address h = (\<lparr>addr_hw = address, latch_hw = 0xFF, initialized_hw = False\<rparr>, h)"

definition create_hw :: "int \<Rightarrow> Host \<Rightarrow> sys_hw" where
  "create_hw address h = Device_new_hw address h"

definition writeByte_hw :: "32 word \<Rightarrow> sys_hw \<Rightarrow> sys_hw" where
  "writeByte_hw b s = (case s of (d, h) \<Rightarrow> (d, i2cWriteNumber (addr_hw d) (b AND 0xFF) h))"

definition begin_hw :: "sys_hw \<Rightarrow> sys_hw" where
  "begin_hw s =
     (case (case s of (d, h) \<Rightarrow> writeByte_hw (latch_hw d) (d, h))
      of (d, h) \<Rightarrow> (d\<lparr>initialized_hw := True\<rparr>, h))"

definition ensureInit_hw :: "sys_hw \<Rightarrow> sys_hw" where
  "ensureInit_hw s =
     (case s of (d, h) \<Rightarrow> if \<not> initialized_hw d then begin_hw (d, h) else (d, h))"

definition readPort_hw :: "sys_hw \<Rightarrow> 32 word \<times> sys_hw" where
  "readPort_hw s =
     (case ensureInit_hw s of (d, h) \<Rightarrow>
        (case i2cReadNumber (addr_hw d) h of (v, h') \<Rightarrow> (word_of_int v AND 0xFF, (d, h'))))"

definition writePort_hw :: "int \<Rightarrow> sys_hw \<Rightarrow> sys_hw" where
  "writePort_hw val s =
     (case ensureInit_hw s of (d, h) \<Rightarrow>
        let d = d\<lparr>latch_hw := word_of_int val AND 0xFF\<rparr>
        in writeByte_hw (latch_hw d) (d, h))"

definition readPin_hw :: "nat \<Rightarrow> sys_hw \<Rightarrow> bool \<times> sys_hw" where
  "readPin_hw pin s =
     (case ensureInit_hw s of (d, h) \<Rightarrow>
        let mask = pin_mask pin;
            d = d\<lparr>latch_hw := latch_hw d OR mask\<rparr>;
            s1 = writeByte_hw (latch_hw d) (d, h)
        in (case readPort_hw s1 of (v, s2) \<Rightarrow> (v AND mask \<noteq> 0, s2)))"

definition writePin_hw :: "nat \<Rightarrow> bool \<Rightarrow> sys_hw \<Rightarrow> sys_hw" where
  "writePin_hw pin high s =
     (case ensureInit_hw s of (d, h) \<Rightarrow>
        let mask = pin_mask pin;
            d = (if high then d\<lparr>latch_hw := latch_hw d OR mask\<rparr>
                 else d\<lparr>latch_hw := latch_hw d AND NOT mask\<rparr>)
        in writeByte_hw (latch_hw d) (d, h))"

definition buttonPressed_hw ::
  "(sys_hw \<Rightarrow> sys_hw) \<Rightarrow> nat \<Rightarrow> int option \<Rightarrow> sys_hw \<Rightarrow> bool \<times> sys_hw" where
  "buttonPressed_hw others pin debounceMs_opt s =
     (let debounceMs = (case debounceMs_opt of None \<Rightarrow> 20 | Some ms \<Rightarrow> ms)
      in case readPin_hw pin s of (r1, s1) \<Rightarrow>
           if r1 = False then
             (if debounceMs > 0 then
                (case readPin_hw pin (pause others debounceMs s1) of
                   (r2, s2) \<Rightarrow> (r2 = False, s2))
              else (True, s1))
           else (False, s1))"

definition led_hw :: "nat \<Rightarrow> bool \<Rightarrow> bool option \<Rightarrow> sys_hw \<Rightarrow> sys_hw" where
  "led_hw pin on activeLow_opt s =
     (let activeLow = (case activeLow_opt of None \<Rightarrow> True | Some a \<Rightarrow> a);
          driveLow = (if activeLow then on else \<not> on)
      in writePin_hw pin (\<not> driveLow) s)"

definition setInput_hw :: "nat \<Rightarrow> sys_hw \<Rightarrow> sys_hw" where
  "setInput_hw pin s = writePin_hw pin True s"

definition setOutputLow_hw :: "nat \<Rightarrow> sys_hw \<Rightarrow> sys_hw" where
  "setOutputLow_hw pin s = writePin_hw pin False s"

section \<open>Reachable devices and sample hosts\<close>

text \<open>
  The fields are private and every assignment to \<open>latch\<close> comes after \<open>ensureInit\<close>,
  so a device that has not been initialized still holds the constructor's latch.
\<close>

definition latch_inv :: "Device \<Rightarrow> bool" where
  "latch_inv d \<longleftrightarrow> initialized d \<or> latch d = 0xFF"

abbreviation sim_host :: Host where
  "sim_host \<equiv> \<lparr>dalVersion = Inr ''sim'', answer = int, reads = 0, trace = []\<rparr>"

abbreviation board_host :: Host where
  "board_host \<equiv> \<lparr>dalVersion = Inl (Thrown ''unavailable''), answer = int, reads = 0, trace = []\<rparr>"

section \<open>Bit-level facts\<close>

lemmas device_defs =
  create_def Device_new_def isSimulator_def writeByte_def begin_device_def ensureInit_def
  readPort_def writePort_def readPin_def writePin_def buttonPressed_def led_def setInput_def
  setOutputLow_def setSimPinHigh_def setSimPinLow_def

lemmas device_hw_defs =
  create_hw_def Device_new_hw_def writeByte_hw_def begin_hw_def ensureInit_hw_def
  readPort_hw_def writePort_hw_def readPin_hw_def writePin_hw_def buttonPressed_hw_def
  led_hw_def setInput_hw_def setOutputLow_hw_def

lemmas host_defs = i2cWriteNumber_def i2cReadNumber_def pause_def

lemma ff_mask: "(0xFF :: 32 word) = mask 8"
  by (simp add: mask_eq_exp_minus_1)

lemma bit_ff: "bit (0xFF :: 32 word) n \<longleftrightarrow> n < 8"
  by (auto simp add: ff_mask bit_mask_iff)

lemma bit_ff_int: "bit (0xFF :: int) n \<longleftrightarrow> n < 8"
proof -
  have e: "(0xFF :: int) = mask 8"
    by (simp add: mask_eq_exp_minus_1)
  show ?thesis
    by (subst e) (simp add: bit_mask_iff)
qed

lemma bit_pin_mask: "bit (pin_mask p) n \<longleftrightarrow> n = p mod 32"
  by (auto simp add: pin_mask_def bit_exp_iff)

lemma and_pin_mask_0: "(w AND pin_mask p = 0) \<longleftrightarrow> \<not> bit w (p mod 32)"
proof
  assume "w AND pin_mask p = 0"
  then have "\<not> bit (w AND pin_mask p) (p mod 32)" by simp
  then show "\<not> bit w (p mod 32)" by (simp add: bit_and_iff bit_pin_mask)
next
  assume "\<not> bit w (p mod 32)"
  then show "w AND pin_mask p = 0"
    by (intro bit_word_eqI) (auto simp add: bit_and_iff bit_pin_mask)
qed

lemma or_pin_mask_id: "bit w (p mod 32) \<Longrightarrow> w OR pin_mask p = w"
  by (intro bit_word_eqI) (auto simp add: bit_or_iff bit_pin_mask)

lemma and_ff_id:
  assumes "0 \<le> v" and "v \<le> 255"
  shows "(word_of_int v :: 32 word) AND 0xFF = word_of_int v"
proof -
  have "take_bit 8 v = v"
    using assms by (simp add: take_bit_int_eq_self)
  then have "take_bit 8 (word_of_int v :: 32 word) = word_of_int v"
    by (metis take_bit_of_int)
  then show ?thesis
    by (simp add: ff_mask flip: take_bit_eq_mask)
qed

lemma sint_byte: "0 \<le> v \<Longrightarrow> v \<le> 255 \<Longrightarrow> sint (word_of_int v :: 32 word) = v"
  by (simp add: sint_uint signed_take_bit_int_eq_self take_bit_int_eq_self uint_word_of_int_eq)

lemmas bit_facts =
  and_pin_mask_0 bit_and_iff bit_or_iff bit_not_iff bit_pin_mask bit_ff bit_ff_int
  bit_word_of_int_iff

section \<open>Lazy initialization\<close>

text \<open>
  Every operation that starts with \<open>ensureInit\<close> behaves, on an uninitialized device,
  as \<open>begin\<close> followed by the same operation, and \<open>ensureInit\<close> runs \<open>begin\<close> at most
  once. \<open>latch_inv\<close> holds of a new device and is kept by every operation.
\<close>

lemma latch_inv_create: "create address h = Inr s \<Longrightarrow> latch_inv (fst s)"
  by (auto simp add: create_def Device_new_def isSimulator_def latch_inv_def Let_def)

lemma latch_inv_begin_device: "latch_inv (fst (begin_device s))"
  by (cases s) (simp add: begin_device_def writeByte_def latch_inv_def)

lemma initialized_ensureInit: "initialized (fst (ensureInit s))"
  by (cases s) (simp add: ensureInit_def begin_device_def writeByte_def)

lemma latch_inv_after_init:
  "latch_inv (fst (snd (readPort s)))" "latch_inv (fst (writePort v s))"
  "latch_inv (fst (snd (readPin pin s)))" "latch_inv (fst (writePin pin b s))"
  using initialized_ensureInit [of s]
  by (auto simp add: readPort_def writePort_def readPin_def writePin_def writeByte_def
      latch_inv_def host_defs Let_def ensureInit_def [of "(x, y)" for x y] split: prod.splits)

lemma latch_inv_setSimPin:
  "latch_inv (fst s) \<Longrightarrow> latch_inv (fst (setSimPinHigh pin s))"
  "latch_inv (fst s) \<Longrightarrow> latch_inv (fst (setSimPinLow pin s))"
  by (cases s; simp add: setSimPinHigh_def setSimPinLow_def latch_inv_def)+

lemma ensureInit_begins: "\<not> initialized (fst s) \<Longrightarrow> ensureInit s = begin_device s"
  by (cases s) (simp add: ensureInit_def)

lemma ensureInit_once: "ensureInit (ensureInit s) = ensureInit s"
  by (cases s) (simp add: ensureInit_def begin_device_def writeByte_def)

lemma ensureInit_hw_begins: "\<not> initialized_hw (fst t) \<Longrightarrow> ensureInit_hw t = begin_hw t"
  by (cases t) (simp add: ensureInit_hw_def)

lemma ensureInit_hw_once: "ensureInit_hw (ensureInit_hw t) = ensureInit_hw t"
  by (cases t) (simp add: ensureInit_hw_def begin_hw_def writeByte_hw_def)

lemma begin_device_first:
  assumes "\<not> initialized (fst s)"
  shows "readPort s = readPort (begin_device s)"
    and "writePort v s = writePort v (begin_device s)"
    and "readPin pin s = readPin pin (begin_device s)"
    and "writePin pin b s = writePin pin b (begin_device s)"
  using ensureInit_once [of s] ensureInit_begins [OF assms]
  by (simp_all add: readPort_def writePort_def readPin_def writePin_def)

lemma begin_hw_first:
  assumes "\<not> initialized_hw (fst t)"
  shows "readPort_hw t = readPort_hw (begin_hw t)"
    and "writePort_hw v t = writePort_hw v (begin_hw t)"
    and "readPin_hw pin t = readPin_hw pin (begin_hw t)"
    and "writePin_hw pin b t = writePin_hw pin b (begin_hw t)"
  using ensureInit_hw_once [of t] ensureInit_hw_begins [OF assms]
  by (simp_all add: readPort_hw_def writePort_hw_def readPin_hw_def writePin_hw_def)

lemma pauses_readPin: "pauses (snd (snd (readPin pin s))) = pauses (snd s)"
  by (cases s) (auto simp add: device_defs host_defs pauses_def Let_def split: prod.splits)

lemma pauses_readPin_hw: "pauses (snd (snd (readPin_hw pin t))) = pauses (snd t)"
  by (cases t) (auto simp add: device_hw_defs host_defs pauses_def Let_def split: prod.splits)

section \<open>Port primitives\<close>

text \<open>
  C1. On an initialized device in mock mode \<open>readPort\<close> returns the bitwise AND of the
  mock input snapshot \<open>simPort\<close> and the latch, and changes nothing: a bit whose latch bit
  is 1 reads the snapshot bit, a bit whose latch bit is 0 reads 0.
\<close>

theorem readPort_mock_and:
  assumes "initialized d" and "sim d"
  shows "readPort (d, h) = (simPort d AND latch d, (d, h)) \<and>
         (\<forall>n. bit (fst (readPort (d, h))) n =
               (if bit (latch d) n then bit (simPort d) n else False))"
  using assms by (auto simp add: readPort_def ensureInit_def bit_and_iff)

theorem readPort_mock_and_witness:
  "initialized \<lparr>addr = 0x20, latch = 0x0F, initialized = True, sim = True, simPort = 0xAA\<rparr> \<and>
   sim \<lparr>addr = 0x20, latch = 0x0F, initialized = True, sim = True, simPort = 0xAA\<rparr> \<and>
   fst (readPort (\<lparr>addr = 0x20, latch = 0x0F, initialized = True, sim = True,
                   simPort = 0xAA\<rparr>, sim_host)) = 0x0A"
  using readPort_mock_and
    [of "\<lparr>addr = 0x20, latch = 0x0F, initialized = True, sim = True, simPort = 0xAA\<rparr>" sim_host]
  by simp

text \<open>
  C5. In mock mode with the snapshot at 0xFF, \<open>writePort v\<close> followed by \<open>readPort\<close>
  returns \<open>v\<close> for every \<open>v\<close> from 0 to 255, on every device that satisfies
  \<open>latch_inv\<close>.
\<close>

theorem writePort_readPort_roundtrip:
  assumes "latch_inv d" and "sim d" and "simPort d = 0xFF" and "0 \<le> v" and "v \<le> 255"
  shows "sint (fst (readPort (writePort v (d, h)))) = v"
proof -
  have w: "(word_of_int v :: 32 word) AND 0xFF = word_of_int v"
    using assms by (simp add: and_ff_id)
  have "fst (readPort (writePort v (d, h))) = word_of_int v"
    using assms w by (auto simp add: device_defs Let_def latch_inv_def and.commute)
  then show ?thesis
    using assms by (simp add: sint_byte)
qed

theorem writePort_readPort_roundtrip_witness:
  "latch_inv \<lparr>addr = 0x20, latch = 0xFF, initialized = False, sim = True, simPort = 0xFF\<rparr> \<and>
   sint (fst (readPort (writePort 0xA5 (\<lparr>addr = 0x20, latch = 0xFF, initialized = False,
                                         sim = True, simPort = 0xFF\<rparr>, sim_host)))) = 0xA5"
  using writePort_readPort_roundtrip
    [of "\<lparr>addr = 0x20, latch = 0xFF, initialized = False, sim = True, simPort = 0xFF\<rparr>"
        "0xA5" sim_host]
  by (simp add: latch_inv_def)

section \<open>Pin operations\<close>

text \<open>
  What \<open>readPin\<close> asks of the bus, in order: the latch written by a lazy \<open>begin\<close>, the
  latch with the pin released, and one port read.
\<close>

lemma readPin_trace:
  assumes "pin < 8"
  shows "trace (snd (snd (readPin pin (d, h)))) =
           (if sim d then trace h
            else trace h @
                 (if initialized d then [] else [I2CWrite (addr d) (latch d AND 0xFF)]) @
                 (if bit (latch d) pin then []
                  else [I2CWrite (addr d) ((latch d OR pin_mask pin) AND 0xFF)]) @
                 [I2CRead (addr d)])"
  using assms
  by (auto simp add: device_defs host_defs Let_def and_pin_mask_0 split: prod.splits)

lemma readPin_hw_trace:
  "trace (snd (snd (readPin_hw pin (dh, h)))) =
     trace h @
     (if initialized_hw dh then [] else [I2CWrite (addr_hw dh) (latch_hw dh AND 0xFF)]) @
     [I2CWrite (addr_hw dh) ((latch_hw dh OR pin_mask pin) AND 0xFF), I2CRead (addr_hw dh)]"
  by (auto simp add: device_hw_defs host_defs Let_def split: prod.splits)

lemma readPin_reads:
  "reads (snd (snd (readPin pin (d, h)))) = (if sim d then reads h else Suc (reads h))"
  "reads (snd (snd (readPin_hw pin (dh, h)))) = Suc (reads h)"
  by (auto simp add: device_defs device_hw_defs host_defs Let_def split: prod.splits)

lemma released_byte: "pin < 8 \<Longrightarrow> bit ((w OR pin_mask pin) AND 0xFF) pin"
  by (simp add: bit_facts)

text \<open>
  C4. For a pin from 0 to 7 and any device state, in either transport mode and in both
  drivers: after \<open>readPin\<close> the pin's latch bit is 1, and the result is the pin's bit of
  the observed port value. In mock mode that is the pin's bit of the snapshot (which the
  lazy \<open>begin\<close> of an uninitialized device has just set to the latch) and the bus is not
  used. On hardware it is the pin's bit of the byte the chip answers to the single port
  read, and that read is the last bus transaction: whenever the pin's latch bit was 0 (in
  main.ts always) it comes directly after a write of the latch with the pin's bit set, so
  the release reaches the chip before the level is sampled; when the simulator-aware
  driver skips the write, the pin's latch bit was 1 already.
\<close>

theorem readPin_releases:
  assumes "pin < 8"
  shows "bit (latch (fst (snd (readPin pin (d, h))))) pin \<and>
         fst (readPin pin (d, h)) =
           (if sim d then (if initialized d then bit (simPort d) pin else bit (latch d) pin)
            else bit (answer h (reads h)) pin) \<and>
         bit (latch_hw (fst (snd (readPin_hw pin (dh, h))))) pin \<and>
         fst (readPin_hw pin (dh, h)) = bit (answer h (reads h)) pin \<and>
         trace (snd (snd (readPin pin (d, h)))) =
           (if sim d then trace h
            else trace h @
                 (if initialized d then [] else [I2CWrite (addr d) (latch d AND 0xFF)]) @
                 (if bit (latch d) pin then []
                  else [I2CWrite (addr d) ((latch d OR pin_mask pin) AND 0xFF)]) @
                 [I2CRead (addr d)]) \<and>
         reads (snd (snd (readPin pin (d, h)))) = (if sim d then reads h else Suc (reads h)) \<and>
         trace (snd (snd (readPin_hw pin (dh, h)))) =
           trace h @
           (if initialized_hw dh then [] else [I2CWrite (addr_hw dh) (latch_hw dh AND 0xFF)]) @
           [I2CWrite (addr_hw dh) ((latch_hw dh OR pin_mask pin) AND 0xFF),
            I2CRead (addr_hw dh)] \<and>
         reads (snd (snd (readPin_hw pin (dh, h)))) = Suc (reads h) \<and>
         bit ((latch d OR pin_mask pin) AND 0xFF) pin \<and>
         bit ((latch_hw dh OR pin_mask pin) AND 0xFF) pin"
proof -
  have "bit (latch (fst (snd (readPin pin (d, h))))) pin \<and>
        fst (readPin pin (d, h)) =
          (if sim d then (if initialized d then bit (simPort d) pin else bit (latch d) pin)
           else bit (answer h (reads h)) pin) \<and>
        bit (latch_hw (fst (snd (readPin_hw pin (dh, h))))) pin \<and>
        fst (readPin_hw pin (dh, h)) = bit (answer h (reads h)) pin"
    using assms
    by (auto simp add: device_defs device_hw_defs host_defs Let_def bit_facts
        split: prod.splits)
  then show ?thesis
    using assms
    by (simp only: readPin_trace readPin_hw_trace readPin_reads released_byte)
qed

theorem readPin_releases_witness:
  "(3::nat) < 8 \<and>
   bit (latch (fst (snd (readPin 3 (\<lparr>addr = 0x20, latch = 0xF0, initialized = True, sim = True,
                                        simPort = 0x08\<rparr>, sim_host))))) (3::nat) \<and>
   fst (readPin 3 (\<lparr>addr = 0x20, latch = 0xF0, initialized = True, sim = True,
                    simPort = 0x08\<rparr>, sim_host)) = True \<and>
   trace (snd (snd (readPin 3 (\<lparr>addr = 0x20, latch = 0xF0, initialized = True, sim = True,
                                   simPort = 0x08\<rparr>, sim_host)))) = [] \<and>
   fst (readPin 3 (\<lparr>addr = 0x20, latch = 0xF7, initialized = True, sim = False,
                    simPort = 0xFF\<rparr>,
                   \<lparr>dalVersion = Inr ''2.2.0'', answer = (\<lambda>k. 0x08), reads = 0,
                    trace = []\<rparr>)) = True \<and>
   trace (snd (snd (readPin 3 (\<lparr>addr = 0x20, latch = 0xF7, initialized = True, sim = False,
                                   simPort = 0xFF\<rparr>,
                                  \<lparr>dalVersion = Inr ''2.2.0'', answer = (\<lambda>k. 0x08), reads = 0,
                                   trace = []\<rparr>)))) =
     [I2CWrite 0x20 0xFF, I2CRead 0x20] \<and>
   fst (readPin_hw 3 (\<lparr>addr_hw = 0x20, latch_hw = 0xF7, initialized_hw = False\<rparr>,
                      \<lparr>dalVersion = Inr ''2.2.0'', answer = (\<lambda>k. 0x08), reads = 0,
                       trace = []\<rparr>)) = True \<and>
   trace (snd (snd (readPin_hw 3 (\<lparr>addr_hw = 0x20, latch_hw = 0xF7, initialized_hw = False\<rparr>,
                                  \<lparr>dalVersion = Inr ''2.2.0'', answer = (\<lambda>k. 0x08),
                                   reads = 0, trace = []\<rparr>)))) =
     [I2CWrite 0x20 0xF7, I2CWrite 0x20 0xFF, I2CRead 0x20]"
  using readPin_releases
    [of 3 "\<lparr>addr = 0x20, latch = 0xF0, initialized = True, sim = True, simPort = 0x08\<rparr>"
        sim_host]
    readPin_releases
    [of 3 "\<lparr>addr = 0x20, latch = 0xF7, initialized = True, sim = False, simPort = 0xFF\<rparr>"
        "\<lparr>dalVersion = Inr ''2.2.0'', answer = (\<lambda>k. 0x08), reads = 0, trace = []\<rparr>"
        "\<lparr>addr_hw = 0x20, latch_hw = 0xF7, initialized_hw = False\<rparr>"]
  by (simp add: pin_mask_def)

text \<open>
  C10. On an initialized device and for a pin from 0 to 7, \<open>writePin pin b\<close> makes the
  pin's latch bit equal to \<open>b\<close> and leaves every other latch bit, the snapshot, the
  address, the initialized flag and the transport mode as they were; likewise in the
  hardware-only driver.
\<close>

theorem writePin_frame:
  assumes "pin < 8" and "initialized d" and "initialized_hw dh"
  shows "(\<forall>n. bit (latch (fst (writePin pin b (d, h)))) n =
               (if n = pin then b else bit (latch d) n)) \<and>
         simPort (fst (writePin pin b (d, h))) = simPort d \<and>
         addr (fst (writePin pin b (d, h))) = addr d \<and>
         initialized (fst (writePin pin b (d, h))) = initialized d \<and>
         sim (fst (writePin pin b (d, h))) = sim d \<and>
         (\<forall>n. bit (latch_hw (fst (writePin_hw pin b (dh, h)))) n =
               (if n = pin then b else bit (latch_hw dh) n)) \<and>
         addr_hw (fst (writePin_hw pin b (dh, h))) = addr_hw dh \<and>
         initialized_hw (fst (writePin_hw pin b (dh, h))) = initialized_hw dh"
  using assms
  by (auto simp add: device_defs device_hw_defs host_defs Let_def bit_facts
      split: prod.splits dest: bit_imp_le_length)

theorem writePin_frame_witness:
  "(2::nat) < 8 \<and>
   \<not> bit (latch (fst (writePin 2 False (\<lparr>addr = 0x20, latch = 0xFF, initialized = True,
                                           sim = False, simPort = 0xFF\<rparr>, board_host)))) (2::nat) \<and>
   bit (latch (fst (writePin 2 False (\<lparr>addr = 0x20, latch = 0xFF, initialized = True,
                                         sim = False, simPort = 0xFF\<rparr>, board_host)))) (5::nat) \<and>
   simPort (fst (writePin 2 False (\<lparr>addr = 0x20, latch = 0xFF, initialized = True,
                                      sim = False, simPort = 0xFF\<rparr>, board_host))) = 0xFF \<and>
   \<not> bit (latch_hw (fst (writePin_hw 2 False (\<lparr>addr_hw = 0x20, latch_hw = 0xFF,
                                                 initialized_hw = True\<rparr>, board_host)))) (2::nat)"
  using writePin_frame
    [of 2 "\<lparr>addr = 0x20, latch = 0xFF, initialized = True, sim = False, simPort = 0xFF\<rparr>"
        "\<lparr>addr_hw = 0x20, latch_hw = 0xFF, initialized_hw = True\<rparr>" False board_host]
  by (simp add: bit_ff)

section \<open>Derived helpers\<close>

text \<open>
  C8. For a pin from 0 to 7, in both drivers: \<open>led pin true\<close> with the default
  active-low wiring leaves the pin's latch bit 0, \<open>led pin true false\<close> leaves it 1, and
  \<open>led pin false\<close> with the default wiring leaves it 1.
\<close>

theorem led_latch_bit:
  assumes "pin < 8"
  shows "\<not> bit (latch (fst (led pin True None s))) pin \<and>
         bit (latch (fst (led pin True (Some False) s))) pin \<and>
         bit (latch (fst (led pin False None s))) pin \<and>
         \<not> bit (latch_hw (fst (led_hw pin True None t))) pin \<and>
         bit (latch_hw (fst (led_hw pin True (Some False) t))) pin \<and>
         bit (latch_hw (fst (led_hw pin False None t))) pin"
  using assms
  by (auto simp add: device_defs device_hw_defs host_defs Let_def bit_facts split: prod.splits)

theorem led_latch_bit_witness:
  "(3::nat) < 8 \<and>
   \<not> bit (latch (fst (led 3 True None (\<lparr>addr = 0x20, latch = 0xFF, initialized = True,
                                        sim = True, simPort = 0xFF\<rparr>, sim_host)))) (3::nat) \<and>
   bit (latch_hw (fst (led_hw 3 False None (\<lparr>addr_hw = 0x20, latch_hw = 0xF7,
                                            initialized_hw = True\<rparr>, board_host)))) (3::nat)"
  using led_latch_bit
    [of 3 "(\<lparr>addr = 0x20, latch = 0xFF, initialized = True, sim = True, simPort = 0xFF\<rparr>,
            sim_host)"
        "(\<lparr>addr_hw = 0x20, latch_hw = 0xF7, initialized_hw = True\<rparr>, board_host)"]
  by simp

text \<open>
  C6. In both drivers \<open>buttonPressed\<close> first reads the pin. A high first read gives false
  with no suspension: the final state is the state after that one read, which has recorded
  no pause. A low first read with a debounce of 0 (or less) gives true, again with the state
  after that one read. A low first read with a positive debounce pauses for that many
  milliseconds, which records the pause and lets the rest of the program run, reads the
  same pin again and returns true exactly when the second read is low. An omitted debounce
  is 20.
\<close>

theorem buttonPressed_debounce:
  "(fst (readPin pin s) \<longrightarrow> buttonPressed others pin dm s = (False, snd (readPin pin s))) \<and>
   (\<not> fst (readPin pin s) \<and> ms \<le> 0 \<longrightarrow>
      buttonPressed others pin (Some ms) s = (True, snd (readPin pin s))) \<and>
   (\<not> fst (readPin pin s) \<and> 0 < ms \<longrightarrow>
      buttonPressed others pin (Some ms) s =
        (\<not> fst (readPin pin (pause others ms (snd (readPin pin s)))),
         snd (readPin pin (pause others ms (snd (readPin pin s)))))) \<and>
   pause others ms s = others (fst s, (snd s)\<lparr>trace := trace (snd s) @ [Pause ms]\<rparr>) \<and>
   pauses (snd (snd (readPin pin s))) = pauses (snd s) \<and>
   buttonPressed others pin None s = buttonPressed others pin (Some 20) s \<and>
   (fst (readPin_hw pin t) \<longrightarrow>
      buttonPressed_hw others_hw pin dm t = (False, snd (readPin_hw pin t))) \<and>
   (\<not> fst (readPin_hw pin t) \<and> ms \<le> 0 \<longrightarrow>
      buttonPressed_hw others_hw pin (Some ms) t = (True, snd (readPin_hw pin t))) \<and>
   (\<not> fst (readPin_hw pin t) \<and> 0 < ms \<longrightarrow>
      buttonPressed_hw others_hw pin (Some ms) t =
        (\<not> fst (readPin_hw pin (pause others_hw ms (snd (readPin_hw pin t)))),
         snd (readPin_hw pin (pause others_hw ms (snd (readPin_hw pin t)))))) \<and>
   pause others_hw ms t = others_hw (fst t, (snd t)\<lparr>trace := trace (snd t) @ [Pause ms]\<rparr>) \<and>
   pauses (snd (snd (readPin_hw pin t))) = pauses (snd t) \<and>
   buttonPressed_hw others_hw pin None t = buttonPressed_hw others_hw pin (Some 20) t"
  by (simp add: buttonPressed_def buttonPressed_hw_def pause_def pauses_readPin
      pauses_readPin_hw Let_def split: prod.splits)

theorem buttonPressed_debounce_witness:
  "\<not> fst (readPin 0 (\<lparr>addr = 0x20, latch = 0xFF, initialized = True, sim = True,
                       simPort = 0xFE\<rparr>, sim_host)) \<and>
   buttonPressed (setSimPinHigh 0) 0 (Some 0)
     (\<lparr>addr = 0x20, latch = 0xFF, initialized = True, sim = True, simPort = 0xFE\<rparr>, sim_host) =
     (True, \<lparr>addr = 0x20, latch = 0xFF, initialized = True, sim = True, simPort = 0xFE\<rparr>,
      sim_host) \<and>
   buttonPressed (setSimPinHigh 0) 0 (Some 20)
     (\<lparr>addr = 0x20, latch = 0xFF, initialized = True, sim = True, simPort = 0xFE\<rparr>, sim_host) =
     (False, \<lparr>addr = 0x20, latch = 0xFF, initialized = True, sim = True, simPort = 0xFF\<rparr>,
      sim_host\<lparr>trace := [Pause 20]\<rparr>) \<and>
   buttonPressed id 0 (Some 20)
     (\<lparr>addr = 0x20, latch = 0xFF, initialized = True, sim = True, simPort = 0xFE\<rparr>, sim_host) =
     (True, \<lparr>addr = 0x20, latch = 0xFF, initialized = True, sim = True, simPort = 0xFE\<rparr>,
      sim_host\<lparr>trace := [Pause 20]\<rparr>)"
  using buttonPressed_debounce
    [of 0 "(\<lparr>addr = 0x20, latch = 0xFF, initialized = True, sim = True, simPort = 0xFE\<rparr>,
            sim_host)" "setSimPinHigh 0" "Some 0" 0]
    buttonPressed_debounce
    [of 0 "(\<lparr>addr = 0x20, latch = 0xFF, initialized = True, sim = True, simPort = 0xFE\<rparr>,
            sim_host)" "setSimPinHigh 0" "Some 0" 20]
    buttonPressed_debounce
    [of 0 "(\<lparr>addr = 0x20, latch = 0xFF, initialized = True, sim = True, simPort = 0xFE\<rparr>,
            sim_host)" id "Some 0" 20]
  by (simp add: readPin_def readPort_def ensureInit_def setSimPinHigh_def pin_mask_def Let_def)

section \<open>Transport selection\<close>

text \<open>
  C9. \<open>isSimulator\<close> never propagates a failure: whatever the host's version query does,
  it returns a boolean; the boolean is true exactly when the query returned the string
  "sim", and it is false whenever the query throws.
\<close>

theorem isSimulator_never_fails:
  "(\<exists>b. isSimulator h = Inr b) \<and>
   (isSimulator h = Inr True \<longleftrightarrow> dalVersion h = Inr ''sim'') \<and>
   isSimulator (h\<lparr>dalVersion := Inl e\<rparr>) = Inr False"
  by (auto simp add: isSimulator_def split: sum.splits)


section \<open>Transport writes of readPin\<close>

text \<open>
  C7, as the claim states it, fails in the hardware-only driver of main.ts: on an
  initialized device whose latch bit 0 is already 1, \<open>readPin 0\<close> writes the latch to the
  bus before it reads the port.
\<close>

theorem readPin_hw_always_pushes:
  "initialized_hw (fst (begin_hw (create_hw 0x20 board_host))) \<and>
   bit (latch_hw (fst (begin_hw (create_hw 0x20 board_host)))) (0::nat) \<and>
   trace (snd (begin_hw (create_hw 0x20 board_host))) = [I2CWrite 0x20 0xFF] \<and>
   trace (snd (snd (readPin_hw 0 (begin_hw (create_hw 0x20 board_host))))) =
     [I2CWrite 0x20 0xFF, I2CWrite 0x20 0xFF, I2CRead 0x20]"
  by (simp add: device_hw_defs host_defs pin_mask_def Let_def)

text \<open>
  C7, amended. For a pin from 0 to 7, in the simulator-aware driver on an initialized
  device: on hardware \<open>readPin\<close> sets the pin's latch bit and writes the latch to the bus
  before the port read when the bit was 0, and only reads the port, leaving the device as
  it was, when the bit was 1; in mock mode it issues no transport call at all and changes
  the latch only when the bit was 0. The hardware-only driver of main.ts writes the latch
  with the pin's bit set before every port read.
\<close>

theorem readPin_release_push:
  assumes "pin < 8"
  shows "(initialized d \<and> \<not> sim d \<and> \<not> bit (latch d) pin \<longrightarrow>
            trace (snd (snd (readPin pin (d, h)))) =
              trace h @ [I2CWrite (addr d) ((latch d OR pin_mask pin) AND 0xFF), I2CRead (addr d)] \<and>
            latch (fst (snd (readPin pin (d, h)))) = latch d OR pin_mask pin) \<and>
         (initialized d \<and> \<not> sim d \<and> bit (latch d) pin \<longrightarrow>
            trace (snd (snd (readPin pin (d, h)))) = trace h @ [I2CRead (addr d)] \<and>
            fst (snd (readPin pin (d, h))) = d) \<and>
         (sim d \<longrightarrow> trace (snd (snd (readPin pin (d, h)))) = trace h) \<and>
         (initialized d \<and> sim d \<and> \<not> bit (latch d) pin \<longrightarrow>
            fst (snd (readPin pin (d, h))) = d\<lparr>latch := latch d OR pin_mask pin\<rparr>) \<and>
         (initialized d \<and> sim d \<and> bit (latch d) pin \<longrightarrow> fst (snd (readPin pin (d, h))) = d) \<and>
         (initialized_hw dh \<longrightarrow>
            trace (snd (snd (readPin_hw pin (dh, h)))) =
              trace h @ [I2CWrite (addr_hw dh) ((latch_hw dh OR pin_mask pin) AND 0xFF),
                         I2CRead (addr_hw dh)])"
  using assms
  by (auto simp add: device_defs device_hw_defs host_defs Let_def and_pin_mask_0
      split: prod.splits)

theorem readPin_release_push_witness:
  "(2::nat) < 8 \<and>
   trace (snd (snd (readPin 2 (\<lparr>addr = 0x20, latch = 0xFB, initialized = True, sim = False,
                                   simPort = 0xFF\<rparr>, board_host)))) =
     [I2CWrite 0x20 0xFF, I2CRead 0x20] \<and>
   trace (snd (snd (readPin 2 (\<lparr>addr = 0x20, latch = 0xFF, initialized = True, sim = False,
                                   simPort = 0xFF\<rparr>, board_host)))) = [I2CRead 0x20] \<and>
   trace (snd (snd (readPin 2 (\<lparr>addr = 0x20, latch = 0xFB, initialized = True, sim = True,
                                   simPort = 0xFF\<rparr>, sim_host)))) = []"
  using readPin_release_push
    [of 2 "\<lparr>addr = 0x20, latch = 0xFB, initialized = True, sim = False, simPort = 0xFF\<rparr>"
        board_host]
    readPin_release_push
    [of 2 "\<lparr>addr = 0x20, latch = 0xFF, initialized = True, sim = False, simPort = 0xFF\<rparr>"
        board_host]
    readPin_release_push
    [of 2 "\<lparr>addr = 0x20, latch = 0xFB, initialized = True, sim = True, simPort = 0xFF\<rparr>"
        sim_host]
  by (simp add: pin_mask_def)

section \<open>Simulator inputs set before the first operation\<close>

text \<open>
  C2. On a device just created on a host that reports the simulator, \<open>setSimPinLow 0\<close>
  clears bit 0 of the snapshot, but the \<open>buttonPressed 0 20\<close> that follows returns false:
  its lazy \<open>begin\<close> copies the latch 0xFF over the snapshot before the pin is read. After
  \<open>setSimPinHigh 0\<close> the next \<open>buttonPressed 0 20\<close> returns false as well.
\<close>

theorem fresh_mock_press_lost:
  "(case create 0x20 (h\<lparr>dalVersion := Inr ''sim''\<rparr>) of
      Inl e \<Rightarrow> False
    | Inr s0 \<Rightarrow>
        sim (fst s0) \<and> \<not> initialized (fst s0) \<and>
        \<not> bit (simPort (fst (setSimPinLow 0 s0))) (0::nat) \<and>
        fst (buttonPressed others 0 (Some 20) (setSimPinLow 0 s0)) = False \<and>
        fst (buttonPressed others 0 (Some 20)
              (setSimPinHigh 0 (snd (buttonPressed others 0 (Some 20) (setSimPinLow 0 s0)))))
          = False)"
  by (simp add: device_defs host_defs pin_mask_def Let_def)

text \<open>
  C3. \<open>setSimPinLow\<close> and \<open>setSimPinHigh\<close> do not start with \<open>ensureInit\<close>: on a
  device just created in mock mode they change the snapshot and leave the device
  uninitialized, and a later \<open>begin\<close> discards what they stored.
\<close>

theorem setSimPin_skips_begin:
  "(case create 0x20 (h\<lparr>dalVersion := Inr ''sim''\<rparr>) of
      Inl e \<Rightarrow> False
    | Inr s0 \<Rightarrow>
        \<not> initialized (fst s0) \<and> simPort (fst s0) = 0xFF \<and>
        \<not> initialized (fst (setSimPinLow 0 s0)) \<and>
        simPort (fst (setSimPinLow 0 s0)) = 0xFE \<and>
        \<not> initialized (fst (setSimPinHigh 0 (setSimPinLow 0 s0))) \<and>
        simPort (fst (setSimPinHigh 0 (setSimPinLow 0 s0))) = 0xFF \<and>
        begin_device (setSimPinLow 0 s0) = begin_device s0)"
  by (simp add: device_defs host_defs pin_mask_def Let_def)

end
